theory Spec2Isabelle
  imports Main
begin

section \<open>The structured error node of package config\<close>

text \<open>
  The source is the Go file that declares \<^verbatim>\<open>ErrMessage\<close>: a struct with the
  fields Header, ErrCode, Raw, Err and Stack, its constructors, and the methods
  StackTrace, Code, Error, String, Format, Renew, Clone, Specify and ErrorOrNil.

  The file leans on three packages that are not part of the repository: \<^verbatim>\<open>fmt\<close>
  (Sprintf), \<^verbatim>\<open>github.com/pingcap/errors\<close> (HasStack, GetStackTracer, NewStack,
  StackTrace) and \<^verbatim>\<open>github.com/romberli/go-multierror\<close> (the aggregate
  \<^verbatim>\<open>*multierror.Error\<close>). What the methods observe of them is modelled below; what
  cannot be known from the repository is a field of the parameter record \<open>ext\<close>, and
  every theorem holds for every value of it.
\<close>

subsection \<open>Data\<close>

text \<open>
  A stack trace is a list of frames (program counters). A value of the interface type
  \<^verbatim>\<open>error\<close> that is not nil is one of
  \<^item> \<open>Foreign msg tr\<close>: an error of some other package, given by the text its
    \<^verbatim>\<open>Error()\<close> returns and by the stack trace \<^verbatim>\<open>errors.GetStackTracer\<close>
    finds for it (\<open>None\<close> when it finds none, so that \<^verbatim>\<open>errors.HasStack\<close> is false);
  \<^item> \<open>EM p\<close>: a \<^verbatim>\<open>*ErrMessage\<close>, \<open>p = None\<close> being the nil pointer held in a
    non-nil interface;
  \<^item> \<open>Multi p\<close>: a \<^verbatim>\<open>*multierror.Error\<close>, again \<open>None\<close> for the nil pointer, and
    otherwise the children in insertion order (what \<^verbatim>\<open>WrappedErrors()\<close> returns;
    \<^verbatim>\<open>Len()\<close> is their number).
  The field Err is an \<open>error option\<close>, \<open>None\<close> being the nil interface. A wrapped node
  is held as the finite tree of values it points to: the methods below only read it.
  Go's \<^verbatim>\<open>int\<close> is modelled by \<open>int\<close>: no method does arithmetic on ErrCode.
\<close>

type_synonym Frame = nat

type_synonym StackTrace = "Frame list"

datatype error =
    Foreign string "StackTrace option"
  | EM "ErrMessage option"
  | Multi "error list option"
and ErrMessage =
  ErrMessage (Header: string) (ErrCode: int) (Raw: string) (Err: "error option")
    (Stack: StackTrace)

text \<open>
  The run-time panics the methods can raise: a method called through a nil pointer or
  a nil interface, and an index past the end of a slice.
\<close>

datatype panic = NilDereference | IndexOutOfRange

text \<open>The operands of Sprintf that are modelled: strings and ints.\<close>

datatype arg = AString string | AInt int

text \<open>
  The behaviour of the three packages that the repository does not fix:
  \<^item> \<open>fmt_rest\<close>: what \<^verbatim>\<open>fmt\<close> prints from a directive on that is outside the
    directives modelled below (flags, width, precision, argument indexes other than
    \<open>[n]\<close> right before the verb, and the verbs x, X, q, b, o, O, c, U, w), given the
    rest of the format from that \<open>%\<close>, the operands, the number of the next operand
    and whether an argument index has been seen so far;
  \<^item> \<open>merr_Error\<close>: \<^verbatim>\<open>(*multierror.Error).Error()\<close>;
  \<^item> \<open>merr_tracer\<close>: the stack trace \<^verbatim>\<open>errors.GetStackTracer\<close> finds for an
    aggregate, \<open>None\<close> when it finds none;
  \<^item> \<open>NewStack\<close>: the stack trace \<^verbatim>\<open>errors.NewStack(skip).StackTrace()\<close> captures at
    the call site.
\<close>

record ext =
  fmt_rest :: "string \<Rightarrow> arg list \<Rightarrow> nat \<Rightarrow> bool \<Rightarrow> string"
  merr_Error :: "error list option \<Rightarrow> panic + string"
  merr_tracer :: "error list option \<Rightarrow> StackTrace option"
  NewStack :: "nat \<Rightarrow> StackTrace"

subsection \<open>fmt.Sprintf on strings and ints\<close>

text \<open>
  \<^verbatim>\<open>fmtInteger\<close> in base 10: the decimal digits, most significant first, after a
  minus sign for a negative number.
\<close>

definition digit :: "nat \<Rightarrow> char" where
  "digit n = ''0123456789'' ! n"

fun digits :: "nat \<Rightarrow> string" where
  "digits n = (if n < 10 then [digit n] else digits (n div 10) @ [digit (n mod 10)])"

declare digits.simps [simp del]

definition fmtInteger :: "int \<Rightarrow> string" where
  "fmtInteger i = (if i < 0 then CHR ''-'' # digits (nat (- i)) else digits (nat i))"

definition typeString :: "arg \<Rightarrow> string" where
  "typeString a = (case a of AString s \<Rightarrow> ''string'' | AInt i \<Rightarrow> ''int'')"

text \<open>\<^verbatim>\<open>printArg(arg, 'v')\<close>: the operand in its default format.\<close>

definition printValue :: "arg \<Rightarrow> string" where
  "printValue a = (case a of AString s \<Rightarrow> s | AInt i \<Rightarrow> fmtInteger i)"

text \<open>The markers fmt writes instead of failing.\<close>

definition badVerb :: "char \<Rightarrow> arg \<Rightarrow> string" where
  "badVerb verb a = ''%!'' @ [verb] @ ''('' @ typeString a @ ''='' @ printValue a @ '')''"

definition missingArg :: "char \<Rightarrow> string" where
  "missingArg verb = ''%!'' @ [verb] @ ''(MISSING)''"

definition noVerbString :: string where
  "noVerbString = ''%!(NOVERB)''"

fun commaSep :: "string list \<Rightarrow> string" where
  "commaSep [] = []"
| "commaSep [x] = x"
| "commaSep (x # y # ys) = x @ '', '' @ commaSep (y # ys)"

text \<open>
  After the format is consumed, operands that no directive used are reported:
  \<^verbatim>\<open>%!(EXTRA type=value, type=value)\<close>.
\<close>

definition extraArgs :: "arg list \<Rightarrow> nat \<Rightarrow> string" where
  "extraArgs a argNum =
     (if argNum < length a
      then ''%!(EXTRA '' @ commaSep (map (\<lambda>x. typeString x @ ''='' @ printValue x) (drop argNum a)) @ '')''
      else [])"

text \<open>
  \<^verbatim>\<open>printArg(arg, verb)\<close>: \<open>%T\<close> prints the type; \<open>%p\<close> is a bad verb for both
  operand types; a string prints under v and s, an int under v and d. The other valid
  verbs of the operand's type are not modelled (\<open>None\<close>); every other verb is a bad verb.
\<close>

definition printArg :: "arg \<Rightarrow> char \<Rightarrow> string option" where
  "printArg a verb =
     (if verb = CHR ''T'' then Some (typeString a)
      else if verb = CHR ''p'' then Some (badVerb verb a)
      else case a of
        AString s \<Rightarrow>
          if verb \<in> set ''vs'' then Some s
          else if verb \<in> set ''xXqw'' then None
          else Some (badVerb verb a)
      | AInt i \<Rightarrow>
          if verb \<in> set ''vd'' then Some (fmtInteger i)
          else if verb \<in> set ''boOxXcqUw'' then None
          else Some (badVerb verb a))"

text \<open>The number a string of decimal digits denotes.\<close>

definition digitValue :: "char \<Rightarrow> nat" where
  "digitValue c = of_char c - 48"

definition decimalValue :: "string \<Rightarrow> nat" where
  "decimalValue s = foldl (\<lambda>v c. 10 * v + digitValue c) 0 s"

text \<open>
  The byte after \<open>%\<close> starts a directive with flags (\<open>#0+-\<close> and space), an argument
  index (\<open>[\<close>), a width (\<open>*\<close>, a digit) or a precision (\<open>.\<close>), or is the first byte of
  a rune outside ASCII: those are not plain verbs.
\<close>

definition plainVerb :: "char \<Rightarrow> bool" where
  "plainVerb c = (c \<notin> set ''#0+- [*.123456789'' \<and> (of_char c :: nat) < 128)"

text \<open>
  An argument index \<open>[n]\<close>. \<^verbatim>\<open>parseArgNumber\<close> gets the bytes after the opening
  bracket: when they are one to six decimal digits and a closing bracket, the result
  is the number and the bytes after the bracket. Every other bracket (none closing,
  no number, a longer number) is not modelled. The index is good when
  \<open>1 \<le> n \<le> len(a)\<close>; the operand is then \<open>a[n-1]\<close>, and a bad index prints the
  BADINDEX marker. After an index the next byte is the verb, unless it starts a width
  or a precision (\<open>*\<close>, a digit, \<open>.\<close>) or a rune outside ASCII, which is not modelled.
\<close>

definition isDigit :: "char \<Rightarrow> bool" where
  "isDigit c = (c \<in> set ''0123456789'')"

definition parseArgNumber :: "string \<Rightarrow> (nat \<times> string) option" where
  "parseArgNumber s =
     (case dropWhile isDigit s of
        [] \<Rightarrow> None
      | c # rest \<Rightarrow>
          if c = CHR '']'' \<and> takeWhile isDigit s \<noteq> [] \<and> length (takeWhile isDigit s) \<le> 6
          then Some (decimalValue (takeWhile isDigit s), rest)
          else None)"

definition badArgNum :: "char \<Rightarrow> string" where
  "badArgNum verb = ''%!'' @ [verb] @ ''(BADINDEX)''"

definition verbAfterIndex :: "char \<Rightarrow> bool" where
  "verbAfterIndex c = (c \<notin> set ''*.0123456789'' \<and> (of_char c :: nat) < 128)"

text \<open>
  \<^verbatim>\<open>doPrintf\<close>: text is copied up to the next \<open>%\<close>; \<open>%%\<close> prints a percent sign and
  takes no operand; a directive with no operand left prints the MISSING marker; a
  format that ends in \<open>%\<close> prints the NOVERB marker. An argument index sets
  \<open>reordered\<close> for the rest of the call and makes its operand the next one. At the
  end the unused operands are reported, unless \<open>reordered\<close> is set.
\<close>

function doPrintf :: "ext \<Rightarrow> string \<Rightarrow> arg list \<Rightarrow> nat \<Rightarrow> bool \<Rightarrow> string" where
  "doPrintf X [] a argNum reordered = (if \<not> reordered then extraArgs a argNum else [])"
| "doPrintf X (c # fs) a argNum reordered =
     (if c \<noteq> CHR ''%'' then c # doPrintf X fs a argNum reordered
      else case fs of
        [] \<Rightarrow> noVerbString @ (if \<not> reordered then extraArgs a argNum else [])
      | verb # fs' \<Rightarrow>
          if verb = CHR ''['' then
            (case parseArgNumber fs' of
               None \<Rightarrow> fmt_rest X (c # fs) a argNum reordered
             | Some (n, fs2) \<Rightarrow>
                 (case fs2 of
                    [] \<Rightarrow> noVerbString
                  | verb2 # fs3 \<Rightarrow>
                      if \<not> verbAfterIndex verb2 then fmt_rest X (c # fs) a argNum reordered
                      else if verb2 = CHR ''%'' then
                        CHR ''%'' # doPrintf X fs3 a (if 1 \<le> n \<and> n \<le> length a then n - 1 else argNum) True
                      else if \<not> (1 \<le> n \<and> n \<le> length a) then
                        badArgNum verb2 @ doPrintf X fs3 a argNum True
                      else (case printArg (a ! (n - 1)) verb2 of
                              None \<Rightarrow> fmt_rest X (c # fs) a argNum reordered
                            | Some s \<Rightarrow> s @ doPrintf X fs3 a n True)))
          else if \<not> plainVerb verb then fmt_rest X (c # fs) a argNum reordered
          else if verb = CHR ''%'' then CHR ''%'' # doPrintf X fs' a argNum reordered
          else if argNum \<ge> length a then missingArg verb @ doPrintf X fs' a argNum reordered
          else (case printArg (a ! argNum) verb of
                  None \<Rightarrow> fmt_rest X (c # fs) a argNum reordered
                | Some s \<Rightarrow> s @ doPrintf X fs' a (argNum + 1) reordered))"
  by pat_completeness auto
termination
proof -
  have shorter: "length r < Suc (Suc (length s))"
    if "parseArgNumber s = Some (n, v # r)" for s n v r
    using that length_dropWhile_le [of isDigit s]
    by (auto simp: parseArgNumber_def split: list.splits if_splits)
  show ?thesis
    by (relation "measure (\<lambda>(X, format, a, argNum, reordered). length format)")
       (auto dest: shorter)
qed

definition Sprintf :: "ext \<Rightarrow> string \<Rightarrow> arg list \<Rightarrow> string" where
  "Sprintf X format a = doPrintf X format a 0 False"

subsection \<open>The read-only methods\<close>

text \<open>
  \<^verbatim>\<open>Code\<close>: \<^verbatim>\<open>fmt.Sprintf("%s-%d", e.Header, e.ErrCode)\<close>.
\<close>

definition Code :: "ext \<Rightarrow> ErrMessage \<Rightarrow> string" where
  "Code X e = Sprintf X ''%s-%d'' [AString (Header e), AInt (ErrCode e)]"

text \<open>
  Modelled from the spec: the constants \<^verbatim>\<open>constant.EmptyString\<close> and
  \<^verbatim>\<open>constant.ZeroInt\<close> of the repository's package constant, which is not among
  the sources; the spec writes the two tests as \<open>header == ""\<close> and \<open>code == 0\<close>.
\<close>

definition EmptyString :: string where
  "EmptyString = []"

definition ZeroInt :: int where
  "ZeroInt = 0"

text \<open>The source's constant \<^verbatim>\<open>defaultCallerSkip\<close>.\<close>

definition defaultCallerSkip :: nat where
  "defaultCallerSkip = 1"

text \<open>
  \<^verbatim>\<open>errors.HasStack(err)\<close> for an \<open>err\<close> that is not nil: whether
  \<^verbatim>\<open>errors.GetStackTracer(err)\<close> is not nil. A \<^verbatim>\<open>*ErrMessage\<close> has the method
  StackTrace, so it is a tracer itself, the nil pointer included.
\<close>

definition HasStack :: "ext \<Rightarrow> error \<Rightarrow> bool" where
  "HasStack X err =
     (case err of
        Foreign msg tr \<Rightarrow> tr \<noteq> None
      | EM p \<Rightarrow> True
      | Multi merr \<Rightarrow> merr_tracer X merr \<noteq> None)"

text \<open>
  \<^verbatim>\<open>StackTrace\<close>, and \<open>tracerStackTrace\<close> for the expression
  \<^verbatim>\<open>errors.GetStackTracer(err).StackTrace()\<close>: a method call on the nil interface
  when no tracer is found, on a nil \<^verbatim>\<open>*ErrMessage\<close> when that is the tracer (the
  method reads \<^verbatim>\<open>e.Err\<close> first). The type assertion
  \<^verbatim>\<open>e.Err.(*multierror.Error)\<close> succeeds for a nil pointer of that type, which the
  test \<^verbatim>\<open>merr != nil\<close> then excludes.
\<close>

fun StackTrace :: "ext \<Rightarrow> ErrMessage \<Rightarrow> panic + StackTrace"
and tracerStackTrace :: "ext \<Rightarrow> error \<Rightarrow> panic + StackTrace" where
  "StackTrace X (ErrMessage header errCode raw err stack) =
     (case err of
        Some (Multi (Some children)) \<Rightarrow>
          (if int (length children) > ZeroInt
           then (case children of
                   [] \<Rightarrow> Inl IndexOutOfRange
                 | first # rest \<Rightarrow> tracerStackTrace X first)
           else Inr stack)
      | _ \<Rightarrow> Inr stack)"
| "tracerStackTrace X (Foreign msg tr) =
     (case tr of None \<Rightarrow> Inl NilDereference | Some st \<Rightarrow> Inr st)"
| "tracerStackTrace X (EM None) = Inl NilDereference"
| "tracerStackTrace X (EM (Some em)) = StackTrace X em"
| "tracerStackTrace X (Multi merr) =
     (case merr_tracer X merr of None \<Rightarrow> Inl NilDereference | Some st \<Rightarrow> Inr st)"

text \<open>
  \<^verbatim>\<open>Error\<close>, and \<open>errError\<close> for the call \<^verbatim>\<open>e.Err.Error()\<close> through the
  interface: on a nil \<^verbatim>\<open>*ErrMessage\<close> the method panics when it reads the header.
\<close>

fun Error :: "ext \<Rightarrow> ErrMessage \<Rightarrow> panic + string"
and errError :: "ext \<Rightarrow> error \<Rightarrow> panic + string" where
  "Error X (ErrMessage header errCode raw err stack) =
     (let message = Sprintf X ''%s: %s\<newline>''
            [AString (Code X (ErrMessage header errCode raw err stack)), AString raw]
      in case err of
           None \<Rightarrow> Inr message
         | Some w \<Rightarrow>
             (case errError X w of
                Inl p \<Rightarrow> Inl p
              | Inr s \<Rightarrow> Inr (message @ s)))"
| "errError X (Foreign msg tr) = Inr msg"
| "errError X (EM None) = Inl NilDereference"
| "errError X (EM (Some em)) = Error X em"
| "errError X (Multi merr) = merr_Error X merr"

definition String :: "ext \<Rightarrow> ErrMessage \<Rightarrow> panic + string" where
  "String X e = Error X e"

text \<open>
  \<^verbatim>\<open>Format\<close> writes to a \<^verbatim>\<open>fmt.State\<close>. What it writes is a list of chunks: text,
  the \<open>%q\<close> quotation of a text, the rendering of a stack trace by
  \<^verbatim>\<open>errors.StackTrace.Format\<close>, and the rendering of an aggregate by
  \<^verbatim>\<open>(*multierror.Error).Format\<close>; the last three are left to their packages. The
  flag \<open>flagPlus\<close> is \<^verbatim>\<open>s.Flag('+')\<close>. The result is what has been written when the
  method returns, or the panic that ends it. The method first builds \<open>message\<close> with
  the statements of \<^verbatim>\<open>Error\<close>, whatever the verb, and then looks at the verb; every
  verb other than v, s and q writes nothing.
\<close>

datatype chunk =
    Text string
  | Quoted string
  | StackFormat StackTrace
  | MultiFormat "error list option"

fun Format :: "ext \<Rightarrow> ErrMessage \<Rightarrow> bool \<Rightarrow> char \<Rightarrow> panic + chunk list" where
  "Format X (ErrMessage header errCode raw err stack) flagPlus verb =
     (case Error X (ErrMessage header errCode raw err stack) of
        Inl p \<Rightarrow> Inl p
      | Inr message \<Rightarrow>
          if verb = CHR ''v'' \<and> flagPlus then
            (let line = Text (Sprintf X ''%s: %s\<newline>''
                   [AString (Code X (ErrMessage header errCode raw err stack)), AString raw])
             in case err of
                  None \<Rightarrow> Inr [line, StackFormat stack]
                | Some (Multi merr) \<Rightarrow> Inr [line, MultiFormat merr]
                | Some (EM None) \<Rightarrow> Inl NilDereference
                | Some (EM (Some em)) \<Rightarrow>
                    (case Format X em flagPlus verb of
                       Inl p \<Rightarrow> Inl p
                     | Inr out \<Rightarrow> Inr (line # out))
                | Some (Foreign msg tr) \<Rightarrow>
                    (case errError X (Foreign msg tr) of
                       Inl p \<Rightarrow> Inl p
                     | Inr s \<Rightarrow>
                         if HasStack X (Foreign msg tr) then
                           (case tracerStackTrace X (Foreign msg tr) of
                              Inl p \<Rightarrow> Inl p
                            | Inr st \<Rightarrow>
                                Inr [line, Text (Sprintf X ''%s\<newline>'' [AString s]), StackFormat st])
                         else Inr [line, Text (Sprintf X ''%s\<newline>'' [AString s])]))
          else if verb = CHR ''v'' \<or> verb = CHR ''s'' then Inr [Text message]
          else if verb = CHR ''q'' then Inr [Quoted message]
          else Inr [])"

text \<open>
  \<^verbatim>\<open>ErrorOrNil\<close>: the receiver is a pointer, \<open>None\<close> the nil pointer; the result
  is an interface value, \<open>None\<close> for nil and the receiver itself otherwise.
\<close>

definition ErrorOrNil :: "ErrMessage option \<Rightarrow> error option" where
  "ErrorOrNil e =
     (case e of
        None \<Rightarrow> None
      | Some m \<Rightarrow>
          if Header m = EmptyString \<or> ErrCode m = ZeroInt then None
          else Some (EM (Some m)))"

subsection \<open>The constructors and the methods that allocate or assign\<close>

text \<open>
  \<^verbatim>\<open>newErrMessage\<close> allocates a struct and \<^verbatim>\<open>Specify\<close> assigns to a field of its
  receiver, so these functions pass a store: the list of the structs allocated so far,
  a pointer being \<open>None\<close> (nil) or the index of its struct. A new struct is put at
  the end, so its address is new. An index past the end is no pointer of the program;
  dereferencing it is treated as dereferencing nil.
\<close>

type_synonym store = "ErrMessage list"

type_synonym ptr = "nat option"

definition deref :: "store \<Rightarrow> ptr \<Rightarrow> panic + ErrMessage" where
  "deref st p =
     (case p of
        None \<Rightarrow> Inl NilDereference
      | Some a \<Rightarrow> if a < length st then Inr (st ! a) else Inl NilDereference)"

definition newErrMessage ::
  "store \<Rightarrow> string \<Rightarrow> int \<Rightarrow> string \<Rightarrow> error option \<Rightarrow> StackTrace \<Rightarrow> ptr \<times> store" where
  "newErrMessage st header errCode raw err stack =
     (Some (length st), st @ [ErrMessage header errCode raw err stack])"

definition NewErrMessage ::
  "ext \<Rightarrow> store \<Rightarrow> string \<Rightarrow> int \<Rightarrow> string \<Rightarrow> error option \<Rightarrow> panic + ptr \<times> store" where
  "NewErrMessage X st header errCode raw err =
     (case err of
        None \<Rightarrow>
          Inr (newErrMessage st header errCode raw err (NewStack X defaultCallerSkip))
      | Some w \<Rightarrow>
          if HasStack X w then
            (case tracerStackTrace X w of
               Inl p \<Rightarrow> Inl p
             | Inr stack \<Rightarrow> Inr (newErrMessage st header errCode raw err stack))
          else Inr (newErrMessage st header errCode raw err (NewStack X defaultCallerSkip)))"

definition Clone :: "store \<Rightarrow> ptr \<Rightarrow> panic + ptr \<times> store" where
  "Clone st e =
     (case deref st e of
        Inl p \<Rightarrow> Inl p
      | Inr m \<Rightarrow> Inr (newErrMessage st (Header m) (ErrCode m) (Raw m) (Err m) (Stack m)))"

definition Specify :: "ext \<Rightarrow> store \<Rightarrow> ptr \<Rightarrow> arg list \<Rightarrow> panic + store" where
  "Specify X st e ins =
     (case e of
        None \<Rightarrow> Inl NilDereference
      | Some a \<Rightarrow>
          (case deref st (Some a) of
             Inl p \<Rightarrow> Inl p
           | Inr m \<Rightarrow>
               Inr (st[a := ErrMessage (Header m) (ErrCode m) (Sprintf X (Raw m) ins)
                                 (Err m) (Stack m)])))"

definition Renew :: "ext \<Rightarrow> store \<Rightarrow> ptr \<Rightarrow> arg list \<Rightarrow> panic + ptr \<times> store" where
  "Renew X st e ins =
     (case Clone st e of
        Inl p \<Rightarrow> Inl p
      | Inr (c, st1) \<Rightarrow>
          (case Specify X st1 c ins of
             Inl p \<Rightarrow> Inl p
           | Inr st2 \<Rightarrow> Inr (c, st2)))"

subsection \<open>Notions the properties are stated with\<close>




text \<open>The number of stack traces among the chunks written.\<close>

definition stackSections :: "chunk list \<Rightarrow> nat" where
  "stackSections out =
     length (filter (\<lambda>c. case c of StackFormat st \<Rightarrow> True | _ \<Rightarrow> False) out)"

text \<open>
  Scenario A of the spec: a node is made for the entry
  \<^verbatim>\<open>("DAS", 1001, "failed to connect to %s: %s")\<close> with no wrapped error, specified
  with \<^verbatim>\<open>("db1", "timeout")\<close>, and rendered by \<^verbatim>\<open>Error()\<close>.
\<close>

definition scenarioA :: "ext \<Rightarrow> panic + string" where
  "scenarioA X =
     (case NewErrMessage X [] ''DAS'' 1001 ''failed to connect to %s: %s'' None of
        Inl p \<Rightarrow> Inl p
      | Inr (e, st1) \<Rightarrow>
          (case Specify X st1 e [AString ''db1'', AString ''timeout''] of
             Inl p \<Rightarrow> Inl p
           | Inr st2 \<Rightarrow>
               (case deref st2 e of
                  Inl p \<Rightarrow> Inl p
                | Inr m \<Rightarrow> Error X m)))"

subsection \<open>A sample of the parameters\<close>

text \<open>
  One value of the parameters, for the closed instances below: the packages print
  nothing where they are not modelled, an aggregate renders as the empty text and
  exposes no tracer, and a fresh capture sees three frames before skipping.
\<close>

definition sampleExt :: ext where
  "sampleExt =
     \<lparr>fmt_rest = (\<lambda>format a argNum reordered. []),
      merr_Error = (\<lambda>merr. Inr []),
      merr_tracer = (\<lambda>merr. None),
      NewStack = (\<lambda>skip. drop skip [100, 200, 300])\<rparr>"

section \<open>Properties\<close>

subsection \<open>Sprintf on the formats the methods use\<close>

lemma plainVerb_s: "plainVerb CHR ''s''"
  by (simp add: plainVerb_def)

lemma plainVerb_d: "plainVerb CHR ''d''"
  by (simp add: plainVerb_def)

lemma printArg_s: "printArg (AString s) CHR ''s'' = Some s"
  by (simp add: printArg_def)

lemma printArg_d: "printArg (AInt i) CHR ''d'' = Some (fmtInteger i)"
  by (simp add: printArg_def)

lemma Sprintf_code_format:
  "Sprintf X ''%s-%d'' [AString h, AInt c] = h @ ''-'' @ fmtInteger c"
  by (simp add: Sprintf_def plainVerb_s plainVerb_d printArg_s printArg_d extraArgs_def)

lemma digitValue_digit: "n < 10 \<Longrightarrow> digitValue (digit n) = n"
proof -
  assume "n < 10"
  then have "n \<in> {0, 1, 2, 3, 4, 5, 6, 7, 8, 9}" by auto
  then show ?thesis
    by (auto simp: digit_def digitValue_def)
qed

text \<open>The digits printed for a number denote that number in base 10.\<close>

lemma decimalValue_digits: "decimalValue (digits n) = n"
proof (induction n rule: digits.induct)
  case (1 n)
  show ?case
  proof (cases "n < 10")
    case True
    then show ?thesis
      by (simp add: digits.simps [of n] decimalValue_def digitValue_digit)
  next
    case False
    then have "decimalValue (digits (n div 10)) = n div 10"
      using 1 by simp
    then show ?thesis using False
      by (simp add: digits.simps [of n] decimalValue_def digitValue_digit)
  qed
qed

lemma fmtInteger_1001: "fmtInteger 1001 = ''1001''"
  by (simp add: fmtInteger_def digits.simps digit_def)

text \<open>
  C8. Code() is the concatenation of Header, one hyphen and the decimal
  representation of ErrCode, whatever the node: the representation is a minus sign
  for a negative code and then digits that denote the code's magnitude in base 10.
\<close>

theorem Code_is_header_hyphen_decimal:
  "Code X e = Header e @ ''-'' @ fmtInteger (ErrCode e)
   \<and> fmtInteger (ErrCode e) = (if ErrCode e < 0 then ''-'' else []) @ digits (nat \<bar>ErrCode e\<bar>)
   \<and> decimalValue (digits (nat \<bar>ErrCode e\<bar>)) = nat \<bar>ErrCode e\<bar>"
  by (simp add: Code_def Sprintf_code_format fmtInteger_def decimalValue_digits)

theorem Code_is_header_hyphen_decimal_witness:
  "Code sampleExt (ErrMessage ''DAS'' 1001 ''boom'' None []) = ''DAS-1001''
   \<and> Code sampleExt (ErrMessage ''DAS'' (- 45) ''boom'' None []) = ''DAS--45''"
  using Code_is_header_hyphen_decimal [of sampleExt "ErrMessage ''DAS'' 1001 ''boom'' None []"]
    Code_is_header_hyphen_decimal [of sampleExt "ErrMessage ''DAS'' (- 45) ''boom'' None []"]
  by (simp add: fmtInteger_def digits.simps digit_def)

subsection \<open>ErrorOrNil\<close>

text \<open>
  C1, as the spec states it: ErrorOrNil returns nil if and only if the header is empty
  AND the code is 0, and the node itself otherwise. The code tests with OR. The node
  below has a header and the code 0: it is not "header empty and code 0", and
  ErrorOrNil returns nil for it.
\<close>

theorem ErrorOrNil_conjunction_counterexample:
  "ErrorOrNil (Some (ErrMessage ''DAS'' 0 ''boom'' None [])) = None
   \<and> \<not> (Header (ErrMessage ''DAS'' 0 ''boom'' None []) = []
        \<and> ErrCode (ErrMessage ''DAS'' 0 ''boom'' None []) = 0)"
  by (simp add: ErrorOrNil_def EmptyString_def ZeroInt_def)

text \<open>
  C1, amended: for a node (a receiver that is not nil), ErrorOrNil returns nil if and
  only if the header is empty OR the code is 0, and returns the node itself if and only
  if the header is not empty and the code is not 0. This is what the method's
  comment says: an error "if both Header and ErrCode are not zero value".
\<close>

theorem ErrorOrNil_nil_iff_header_empty_or_code_zero:
  "(ErrorOrNil (Some m) = None \<longleftrightarrow> Header m = [] \<or> ErrCode m = 0)
   \<and> (ErrorOrNil (Some m) = Some (EM (Some m)) \<longleftrightarrow> Header m \<noteq> [] \<and> ErrCode m \<noteq> 0)"
  by (simp add: ErrorOrNil_def EmptyString_def ZeroInt_def)

theorem ErrorOrNil_nil_iff_header_empty_or_code_zero_witness:
  "ErrorOrNil (Some (ErrMessage ''DAS'' 1001 ''boom'' None [])) =
     Some (EM (Some (ErrMessage ''DAS'' 1001 ''boom'' None [])))
   \<and> ErrorOrNil (Some (ErrMessage [] 1001 ''boom'' None [])) = None"
  using ErrorOrNil_nil_iff_header_empty_or_code_zero [of "ErrMessage ''DAS'' 1001 ''boom'' None []"]
    ErrorOrNil_nil_iff_header_empty_or_code_zero [of "ErrMessage [] 1001 ''boom'' None []"]
  by simp

text \<open>
  C9. ErrorOrNil on the nil pointer returns nil: the receiver is tested before any
  field is read.
\<close>

theorem ErrorOrNil_nil_receiver:
  "ErrorOrNil None = None"
  by (simp add: ErrorOrNil_def)

subsection \<open>StackTrace\<close>

lemma StackTrace_no_index_panic:
  "StackTrace X e \<noteq> Inl IndexOutOfRange" and "tracerStackTrace X w \<noteq> Inl IndexOutOfRange"
  by (induction X e and X w rule: StackTrace_tracerStackTrace.induct)
     (auto simp: ZeroInt_def split: option.splits error.splits list.splits)

text \<open>
  C10. When the wrapped error is an aggregate that is the nil pointer or has no
  children, StackTrace returns the node's own Stack; and no node at all makes
  StackTrace index past the end of the children: the index panic is never its result.
\<close>

theorem StackTrace_empty_aggregate_own_stack:
  "StackTrace X (ErrMessage header errCode raw (Some (Multi None)) stack) = Inr stack
   \<and> StackTrace X (ErrMessage header errCode raw (Some (Multi (Some []))) stack) = Inr stack
   \<and> StackTrace X e \<noteq> Inl IndexOutOfRange"
  by (simp add: ZeroInt_def StackTrace_no_index_panic)

theorem StackTrace_empty_aggregate_own_stack_witness:
  "StackTrace sampleExt (ErrMessage ''DAS'' 1 ''boom'' (Some (Multi None)) [7, 8]) = Inr [7, 8]
   \<and> StackTrace sampleExt (ErrMessage ''DAS'' 1 ''boom'' (Some (Multi (Some []))) [7, 8]) = Inr [7, 8]"
  using StackTrace_empty_aggregate_own_stack [of sampleExt "''DAS''" 1 "''boom''" "[7, 8]"]
  by simp

text \<open>
  C5, as the spec states it: whenever the wrapped error is an aggregate, StackTrace
  returns the stack trace of the aggregate's first child. Two nodes that wrap an
  aggregate: for the aggregate without children StackTrace returns the node's own
  Stack, and for the aggregate whose first child exposes no stack trace it does not
  return at all (the method is called on the nil tracer).
\<close>

theorem StackTrace_aggregate_counterexample:
  "StackTrace sampleExt (ErrMessage ''DAS'' 1 ''boom'' (Some (Multi (Some []))) [7, 8]) = Inr [7, 8]
   \<and> StackTrace sampleExt
        (ErrMessage ''DAS'' 1 ''boom'' (Some (Multi (Some [Foreign ''inner'' None]))) [7, 8])
       = Inl NilDereference"
  by (simp add: ZeroInt_def)

text \<open>
  C5, amended: if the wrapped error is an aggregate that is not nil and has a child,
  and the first child (in insertion order) exposes a stack trace, StackTrace returns
  that stack trace; if the wrapped error is a nil or childless aggregate, or is not an
  aggregate, or is absent, StackTrace returns the node's own Stack.
\<close>

theorem StackTrace_delegates_to_first_child:
  "(Err e = Some (Multi (Some (first # rest))) \<and> tracerStackTrace X first = Inr st
      \<longrightarrow> StackTrace X e = Inr st)
   \<and> (Err e = Some (Multi None) \<or> Err e = Some (Multi (Some []))
      \<longrightarrow> StackTrace X e = Inr (Stack e))
   \<and> ((\<forall>merr. Err e \<noteq> Some (Multi merr)) \<longrightarrow> StackTrace X e = Inr (Stack e))"
  by (cases e) (auto simp: ZeroInt_def split: option.splits error.splits list.splits)

theorem StackTrace_delegates_to_first_child_witness:
  "StackTrace sampleExt (ErrMessage ''DAS'' 1 ''boom''
      (Some (Multi (Some [Foreign ''first'' (Some [1, 2]), Foreign ''second'' (Some [3])]))) [7, 8])
     = Inr [1, 2]
   \<and> StackTrace sampleExt (ErrMessage ''DAS'' 1 ''boom'' (Some (Multi None)) [7, 8]) = Inr [7, 8]
   \<and> StackTrace sampleExt (ErrMessage ''DAS'' 1 ''boom'' (Some (Foreign ''x'' (Some [5]))) [7, 8])
     = Inr [7, 8]"
  using StackTrace_delegates_to_first_child [of "ErrMessage ''DAS'' 1 ''boom''
      (Some (Multi (Some [Foreign ''first'' (Some [1, 2]), Foreign ''second'' (Some [3])]))) [7, 8]"
      "Foreign ''first'' (Some [1, 2])" "[Foreign ''second'' (Some [3])]" sampleExt "[1, 2]"]
    StackTrace_delegates_to_first_child
      [of "ErrMessage ''DAS'' 1 ''boom'' (Some (Multi None)) [7, 8]" _ _ sampleExt]
    StackTrace_delegates_to_first_child
      [of "ErrMessage ''DAS'' 1 ''boom'' (Some (Foreign ''x'' (Some [5]))) [7, 8]" _ _ sampleExt]
  by simp

subsection \<open>NewErrMessage\<close>

lemma deref_new: "deref (st @ [m]) (Some (length st)) = Inr m"
  by (simp add: deref_def)

lemma deref_old: "deref st p = Inr m \<Longrightarrow> deref (st @ [m']) p = Inr m"
  by (auto simp: deref_def nth_append split: option.splits if_splits)

text \<open>
  C3. NewErrMessage(header, errCode, raw, err): when err is not nil and exposes a
  stack trace \<open>s\<close>, the call returns a new node whose Stack is \<open>s\<close>; when err is nil
  or has no stack, it returns a new node whose Stack is the one captured by
  \<^verbatim>\<open>errors.NewStack(defaultCallerSkip)\<close>. The other fields are the arguments.
\<close>

theorem NewErrMessage_stack_inherited_or_fresh:
  "(err = Some w \<and> HasStack X w \<and> tracerStackTrace X w = Inr s \<longrightarrow>
      (\<exists>p st'. NewErrMessage X st header errCode raw err = Inr (p, st')
         \<and> deref st' p = Inr (ErrMessage header errCode raw err s)))
   \<and> (err = None \<or> (err = Some w \<and> \<not> HasStack X w) \<longrightarrow>
      (\<exists>p st'. NewErrMessage X st header errCode raw err = Inr (p, st')
         \<and> deref st' p = Inr (ErrMessage header errCode raw err (NewStack X defaultCallerSkip))))"
  by (auto simp: NewErrMessage_def newErrMessage_def deref_new)

theorem NewErrMessage_stack_inherited_or_fresh_witness:
  "(\<exists>p st'. NewErrMessage sampleExt [] ''DAS'' 1001 ''boom'' (Some (Foreign ''inner'' (Some [1, 2])))
        = Inr (p, st')
      \<and> deref st' p = Inr (ErrMessage ''DAS'' 1001 ''boom'' (Some (Foreign ''inner'' (Some [1, 2]))) [1, 2]))
   \<and> (\<exists>p st'. NewErrMessage sampleExt [] ''DAS'' 1001 ''boom'' None = Inr (p, st')
      \<and> deref st' p = Inr (ErrMessage ''DAS'' 1001 ''boom'' None [200, 300]))
   \<and> (\<exists>p st'. NewErrMessage sampleExt [] ''DAS'' 1001 ''boom'' (Some (Foreign ''inner'' None))
        = Inr (p, st')
      \<and> deref st' p = Inr (ErrMessage ''DAS'' 1001 ''boom'' (Some (Foreign ''inner'' None)) [200, 300]))"
  using NewErrMessage_stack_inherited_or_fresh
      [of "Some (Foreign ''inner'' (Some [1, 2]))" "Foreign ''inner'' (Some [1, 2])" sampleExt
          "[1, 2]" "[]" "''DAS''" 1001 "''boom''"]
    NewErrMessage_stack_inherited_or_fresh [of None _ sampleExt _ "[]" "''DAS''" 1001 "''boom''"]
    NewErrMessage_stack_inherited_or_fresh
      [of "Some (Foreign ''inner'' None)" "Foreign ''inner'' None" sampleExt _ "[]" "''DAS''" 1001 "''boom''"]
  by (simp add: HasStack_def sampleExt_def defaultCallerSkip_def)

subsection \<open>Error, String and the verb s\<close>

lemma Sprintf_line_format:
  "Sprintf X ''%s: %s\<newline>'' [AString a, AString b] = a @ '': '' @ b @ ''\<newline>''"
  by (simp add: Sprintf_def plainVerb_s printArg_s extraArgs_def)

lemma Sprintf_text_newline:
  "Sprintf X ''%s\<newline>'' [AString a] = a @ ''\<newline>''"
  by (simp add: Sprintf_def plainVerb_s printArg_s extraArgs_def)

lemma Error_unfold:
  "Error X e =
     (case Err e of
        None \<Rightarrow> Inr (Code X e @ '': '' @ Raw e @ ''\<newline>'')
      | Some w \<Rightarrow>
          (case errError X w of
             Inl p \<Rightarrow> Inl p
           | Inr s \<Rightarrow> Inr (Code X e @ '': '' @ Raw e @ ''\<newline>'' @ s)))"
  by (cases e) (simp add: Sprintf_line_format split: option.splits sum.splits)

lemma Format_s:
  "Format X e flagPlus CHR ''s'' = (case Error X e of Inl p \<Rightarrow> Inl p | Inr t \<Rightarrow> Inr [Text t])"
  by (cases e) (simp split: sum.splits)

text \<open>
  C2, as the spec states it: with no wrapped error the compact text is
  \<open>{header}-{code}: {message}\<close> and nothing more, and Scenario A renders exactly
  \<^verbatim>\<open>DAS-1001: failed to connect to db1: timeout\<close>. The format string of Error ends
  in a newline, so Scenario A renders that text followed by a newline.
\<close>

theorem Error_scenarioA_counterexample:
  "scenarioA sampleExt = Inr ''DAS-1001: failed to connect to db1: timeout\<newline>''
   \<and> scenarioA sampleExt \<noteq> Inr ''DAS-1001: failed to connect to db1: timeout''"
  by (simp add: scenarioA_def NewErrMessage_def newErrMessage_def Specify_def deref_def
      Error_unfold Code_def Sprintf_code_format fmtInteger_1001
      Sprintf_def plainVerb_s printArg_s plainVerb_d printArg_d extraArgs_def)

text \<open>
  C2, amended: the compact text is \<open>{header}-{code}: {message}\<close>, a newline, and then
  the wrapped error's \<^verbatim>\<open>Error()\<close> text when a wrapped error is present; with no
  wrapped error it is \<open>{header}-{code}: {message}\<close> and the newline. String() is
  Error(), and the verb s writes the same text. (Scenario A renders
  \<^verbatim>\<open>DAS-1001: failed to connect to db1: timeout\<close> followed by a newline.)
\<close>

theorem Error_compact_rendering:
  "(Err e = None \<longrightarrow>
      Error X e = Inr (Header e @ ''-'' @ fmtInteger (ErrCode e) @ '': '' @ Raw e @ ''\<newline>''))
   \<and> (Err e = Some w \<and> errError X w = Inr s \<longrightarrow>
      Error X e =
        Inr (Header e @ ''-'' @ fmtInteger (ErrCode e) @ '': '' @ Raw e @ ''\<newline>'' @ s))
   \<and> String X e = Error X e
   \<and> (Error X e = Inr t \<longrightarrow> Format X e flagPlus CHR ''s'' = Inr [Text t])"
  by (simp add: Error_unfold Format_s String_def Code_def Sprintf_code_format split: option.splits)

theorem Error_compact_rendering_witness:
  "Error sampleExt (ErrMessage ''DAS'' 1001 ''boom'' None [7]) = Inr ''DAS-1001: boom\<newline>''
   \<and> Error sampleExt (ErrMessage ''DAS'' 1001 ''boom'' (Some (Foreign ''inner'' None)) [7])
       = Inr ''DAS-1001: boom\<newline>inner''
   \<and> Format sampleExt (ErrMessage ''DAS'' 1001 ''boom'' None [7]) False CHR ''s''
       = Inr [Text ''DAS-1001: boom\<newline>'']"
  using Error_compact_rendering
      [of "ErrMessage ''DAS'' 1001 ''boom'' None [7]" sampleExt _ _ "''DAS-1001: boom\<newline>''" False]
    Error_compact_rendering
      [of "ErrMessage ''DAS'' 1001 ''boom'' (Some (Foreign ''inner'' None)) [7]" sampleExt
          "Foreign ''inner'' None" "''inner''"]
  by (simp add: fmtInteger_1001)

subsection \<open>Clone, Specify and Renew\<close>

lemma deref_valid: "deref st p = Inr m \<Longrightarrow> \<exists>a. p = Some a \<and> a < length st \<and> st ! a = m"
  by (auto simp: deref_def split: option.splits if_splits)

lemma Clone_result:
  assumes "deref st p = Inr P"
  shows "Clone st p = Inr (Some (length st), st @ [P])"
  using assms by (simp add: Clone_def newErrMessage_def)

lemma Renew_result:
  assumes "deref st p = Inr P"
  shows "Renew X st p ins =
     Inr (Some (length st),
          st @ [ErrMessage (Header P) (ErrCode P) (Sprintf X (Raw P) ins) (Err P) (Stack P)])"
  using assms by (simp add: Renew_def Clone_result Specify_def deref_new)

lemma Sprintf_x_template: "Sprintf X ''x=%s'' [AString s] = ''x='' @ s"
  by (simp add: Sprintf_def plainVerb_s printArg_s extraArgs_def)

text \<open>
  C4. For a prototype \<open>P\<close> at the pointer \<open>p\<close>: Renew is Clone followed by Specify on
  the clone; it returns a pointer other than \<open>p\<close> to a node with P's Header, ErrCode,
  Err and Stack and with the rendered Raw, and every node of the store, P included,
  is as it was. With the template \<open>x=%s\<close>, Renew("1") and then Renew("2") give two
  different nodes whose Raw is \<open>x=1\<close> and \<open>x=2\<close> after both calls, and P is unchanged.
\<close>

theorem Renew_clone_then_specify_isolated:
  assumes "deref st p = Inr P"
  shows "Renew X st p ins =
           (case Clone st p of
              Inl q \<Rightarrow> Inl q
            | Inr (c, st1) \<Rightarrow>
                (case Specify X st1 c ins of Inl q \<Rightarrow> Inl q | Inr st2 \<Rightarrow> Inr (c, st2)))
    \<and> (\<exists>c st'. Renew X st p ins = Inr (c, st') \<and> c \<noteq> p
          \<and> deref st' c =
              Inr (ErrMessage (Header P) (ErrCode P) (Sprintf X (Raw P) ins) (Err P) (Stack P))
          \<and> (\<forall>q m. deref st q = Inr m \<longrightarrow> deref st' q = Inr m))
    \<and> (Raw P = ''x=%s'' \<longrightarrow>
         (\<exists>a st1 b st2. Renew X st p [AString ''1''] = Inr (a, st1)
            \<and> Renew X st1 p [AString ''2''] = Inr (b, st2)
            \<and> a \<noteq> b \<and> a \<noteq> p \<and> b \<noteq> p
            \<and> deref st2 a = Inr (ErrMessage (Header P) (ErrCode P) ''x=1'' (Err P) (Stack P))
            \<and> deref st2 b = Inr (ErrMessage (Header P) (ErrCode P) ''x=2'' (Err P) (Stack P))
            \<and> deref st1 p = Inr P \<and> deref st2 p = Inr P))"
proof (intro conjI)
  show "Renew X st p ins =
           (case Clone st p of
              Inl q \<Rightarrow> Inl q
            | Inr (c, st1) \<Rightarrow>
                (case Specify X st1 c ins of Inl q \<Rightarrow> Inl q | Inr st2 \<Rightarrow> Inr (c, st2)))"
    by (simp add: Renew_def)
next
  obtain a where a: "p = Some a" "a < length st"
    using deref_valid [OF assms] by blast
  have "Some (length st) \<noteq> p" using a by simp
  then show "\<exists>c st'. Renew X st p ins = Inr (c, st') \<and> c \<noteq> p
          \<and> deref st' c =
              Inr (ErrMessage (Header P) (ErrCode P) (Sprintf X (Raw P) ins) (Err P) (Stack P))
          \<and> (\<forall>q m. deref st q = Inr m \<longrightarrow> deref st' q = Inr m)"
    by (simp add: Renew_result [OF assms] deref_new deref_old)
next
  show "Raw P = ''x=%s'' \<longrightarrow>
         (\<exists>a st1 b st2. Renew X st p [AString ''1''] = Inr (a, st1)
            \<and> Renew X st1 p [AString ''2''] = Inr (b, st2)
            \<and> a \<noteq> b \<and> a \<noteq> p \<and> b \<noteq> p
            \<and> deref st2 a = Inr (ErrMessage (Header P) (ErrCode P) ''x=1'' (Err P) (Stack P))
            \<and> deref st2 b = Inr (ErrMessage (Header P) (ErrCode P) ''x=2'' (Err P) (Stack P))
            \<and> deref st1 p = Inr P \<and> deref st2 p = Inr P)"
  proof
    assume raw: "Raw P = ''x=%s''"
    obtain a where a: "p = Some a" "a < length st"
      using deref_valid [OF assms] by blast
    let ?A = "ErrMessage (Header P) (ErrCode P) ''x=1'' (Err P) (Stack P)"
    let ?B = "ErrMessage (Header P) (ErrCode P) ''x=2'' (Err P) (Stack P)"
    have p1: "deref (st @ [?A]) p = Inr P"
      using assms by (rule deref_old)
    have r1: "Renew X st p [AString ''1''] = Inr (Some (length st), st @ [?A])"
      by (simp add: Renew_result [OF assms] raw Sprintf_x_template)
    have r2: "Renew X (st @ [?A]) p [AString ''2'']
        = Inr (Some (Suc (length st)), st @ [?A] @ [?B])"
      by (simp add: Renew_result [OF p1] raw Sprintf_x_template)
    have da: "deref (st @ [?A] @ [?B]) (Some (length st)) = Inr ?A"
      by (simp add: deref_def nth_append)
    have db: "deref (st @ [?A] @ [?B]) (Some (Suc (length st))) = Inr ?B"
      by (simp add: deref_def nth_append)
    have p2: "deref (st @ [?A] @ [?B]) p = Inr P"
      using deref_old [OF p1, of ?B] by simp
    show "\<exists>a st1 b st2. Renew X st p [AString ''1''] = Inr (a, st1)
            \<and> Renew X st1 p [AString ''2''] = Inr (b, st2)
            \<and> a \<noteq> b \<and> a \<noteq> p \<and> b \<noteq> p
            \<and> deref st2 a = Inr ?A \<and> deref st2 b = Inr ?B
            \<and> deref st1 p = Inr P \<and> deref st2 p = Inr P"
      using r1 r2 da db p1 p2 a by simp
  qed
qed

theorem Renew_clone_then_specify_isolated_witness:
  "\<exists>a st1 b st2.
      Renew sampleExt [ErrMessage ''DAS'' 7 ''x=%s'' None [1, 2]] (Some 0) [AString ''1''] = Inr (a, st1)
    \<and> Renew sampleExt st1 (Some 0) [AString ''2''] = Inr (b, st2)
    \<and> a \<noteq> b \<and> a \<noteq> Some 0 \<and> b \<noteq> Some 0
    \<and> deref st2 a = Inr (ErrMessage ''DAS'' 7 ''x=1'' None [1, 2])
    \<and> deref st2 b = Inr (ErrMessage ''DAS'' 7 ''x=2'' None [1, 2])
    \<and> deref st2 (Some 0) = Inr (ErrMessage ''DAS'' 7 ''x=%s'' None [1, 2])"
proof -
  have valid: "deref [ErrMessage ''DAS'' 7 ''x=%s'' None [1, 2]] (Some 0)
      = Inr (ErrMessage ''DAS'' 7 ''x=%s'' None [1, 2])"
    by (simp add: deref_def)
  show ?thesis
    using Renew_clone_then_specify_isolated [OF valid, of sampleExt "[]"]
    by auto
qed

subsection \<open>Specify with operands that do not fit the template\<close>

















subsection \<open>Format with the verb v and the flag +\<close>

lemma Format_Error_panic: "Error X e = Inl p \<Longrightarrow> Format X e flagPlus verb = Inl p"
  by (cases e) simp

lemma Format_verbose_wrapped:
  assumes "Err e = Some w"
  shows "Format X e True CHR ''v'' =
     (case w of
        Multi merr \<Rightarrow>
          (case merr_Error X merr of
             Inl p \<Rightarrow> Inl p
           | Inr s \<Rightarrow> Inr [Text (Code X e @ '': '' @ Raw e @ ''\<newline>''), MultiFormat merr])
      | EM None \<Rightarrow> Inl NilDereference
      | EM (Some em) \<Rightarrow>
          (case Format X em True CHR ''v'' of
             Inl p \<Rightarrow> Inl p
           | Inr out \<Rightarrow> Inr (Text (Code X e @ '': '' @ Raw e @ ''\<newline>'') # out))
      | Foreign msg tr \<Rightarrow>
          Inr ([Text (Code X e @ '': '' @ Raw e @ ''\<newline>''), Text (msg @ ''\<newline>'')]
               @ (case tr of None \<Rightarrow> [] | Some st \<Rightarrow> [StackFormat st])))"
proof (cases e)
  case (ErrMessage h c r err s)
  show ?thesis
  proof (cases w)
    case (Foreign msg tr)
    then show ?thesis using assms ErrMessage
      by (simp add: Sprintf_line_format Sprintf_text_newline HasStack_def split: option.splits)
  next
    case (EM pm)
    show ?thesis
    proof (cases pm)
      case None
      then show ?thesis using assms ErrMessage EM by simp
    next
      case (Some em)
      show ?thesis
      proof (cases "Error X em")
        case (Inl p)
        then show ?thesis using assms ErrMessage EM Some
          by (simp add: Format_Error_panic)
      next
        case (Inr t)
        then show ?thesis using assms ErrMessage EM Some
          by (simp add: Sprintf_line_format split: sum.splits)
      qed
    qed
  next
    case (Multi merr)
    then show ?thesis using assms ErrMessage
      by (simp add: Sprintf_line_format split: sum.splits)
  qed
qed

lemma Format_verbose_own_stack_unused:
  assumes "Err e = Some w"
  shows "Format X (ErrMessage (Header e) (ErrCode e) (Raw e) (Err e) s') True CHR ''v''
           = Format X e True CHR ''v''"
proof -
  let ?e' = "ErrMessage (Header e) (ErrCode e) (Raw e) (Err e) s'"
  have w': "Err ?e' = Some w"
    using assms by simp
  have same: "Code X ?e' = Code X e" "Raw ?e' = Raw e"
    by (simp_all add: Code_def)
  show ?thesis
    unfolding Format_verbose_wrapped [OF w'] Format_verbose_wrapped [OF assms] same ..
qed

lemma Format_verbose_leaf:
  assumes "Err e = None"
  shows "Format X e True CHR ''v'' = Inr [Text (Code X e @ '': '' @ Raw e @ ''\<newline>''), StackFormat (Stack e)]"
  using assms by (cases e) (simp add: Sprintf_line_format)

lemma stackSections_simps:
  "stackSections [] = 0"
  "stackSections (Text t # out) = stackSections out"
  "stackSections (Quoted t # out) = stackSections out"
  "stackSections (MultiFormat m # out) = stackSections out"
  "stackSections (StackFormat st # out) = Suc (stackSections out)"
  by (simp_all add: stackSections_def)

lemma Format_verbose_at_most_one_stack:
  "Format X e True CHR ''v'' = Inr out \<Longrightarrow> stackSections out \<le> 1"
proof (induction e arbitrary: out rule: measure_induct_rule [of size])
  case (less e)
  show ?case
  proof (cases "Err e")
    case None
    then show ?thesis using less.prems
      by (auto simp: Format_verbose_leaf stackSections_simps)
  next
    case (Some w)
    show ?thesis
    proof (cases w)
      case (Foreign msg tr)
      then show ?thesis using less.prems
        by (auto simp: Format_verbose_wrapped [OF Some] stackSections_simps split: option.splits)
    next
      case (Multi merr)
      then show ?thesis using less.prems
        by (auto simp: Format_verbose_wrapped [OF Some] stackSections_simps split: sum.splits)
    next
      case (EM pm)
      show ?thesis
      proof (cases pm)
        case None
        then show ?thesis using less.prems EM
          by (simp add: Format_verbose_wrapped [OF Some])
      next
        case em: (Some em)
        have "size em < size e"
          using Some EM em by (cases e) simp
        then show ?thesis using less.prems EM em less.IH [of em]
          by (auto simp: Format_verbose_wrapped [OF Some] stackSections_simps split: sum.splits)
      qed
    qed
  qed
qed


text \<open>
  C7, as the spec states it: a node whose stack was inherited from its wrapped error
  renders in the verbose form with exactly one stack section. Below, \<open>inner\<close> wraps a
  foreign error without a stack and gets a fresh stack; \<open>outer\<close> wraps \<open>inner\<close> and
  inherits that stack. The verbose rendering of \<open>outer\<close> is three lines of text and
  no stack section at all.
\<close>

theorem Format_verbose_one_stack_counterexample:
  "NewErrMessage sampleExt [] ''IN'' 2 ''inner failed'' (Some (Foreign ''boom'' None))
     = Inr (Some 0, [ErrMessage ''IN'' 2 ''inner failed'' (Some (Foreign ''boom'' None)) [200, 300]])
   \<and> NewErrMessage sampleExt
        [ErrMessage ''IN'' 2 ''inner failed'' (Some (Foreign ''boom'' None)) [200, 300]]
        ''OUT'' 1 ''outer failed''
        (Some (EM (Some (ErrMessage ''IN'' 2 ''inner failed'' (Some (Foreign ''boom'' None)) [200, 300]))))
     = Inr (Some 1,
         [ErrMessage ''IN'' 2 ''inner failed'' (Some (Foreign ''boom'' None)) [200, 300],
          ErrMessage ''OUT'' 1 ''outer failed''
            (Some (EM (Some (ErrMessage ''IN'' 2 ''inner failed'' (Some (Foreign ''boom'' None)) [200, 300]))))
            [200, 300]])
   \<and> Format sampleExt
        (ErrMessage ''OUT'' 1 ''outer failed''
           (Some (EM (Some (ErrMessage ''IN'' 2 ''inner failed'' (Some (Foreign ''boom'' None)) [200, 300]))))
           [200, 300])
        True CHR ''v''
     = Inr [Text ''OUT-1: outer failed\<newline>'', Text ''IN-2: inner failed\<newline>'', Text ''boom\<newline>'']
   \<and> stackSections
        [Text ''OUT-1: outer failed\<newline>'', Text ''IN-2: inner failed\<newline>'', Text ''boom\<newline>''] = 0"
  by (simp add: NewErrMessage_def newErrMessage_def HasStack_def sampleExt_def defaultCallerSkip_def
      Sprintf_line_format Sprintf_text_newline Code_def Sprintf_code_format
      fmtInteger_def digits.simps digit_def stackSections_simps)

text \<open>
  C7, amended: a node with a wrapped error (so every node whose stack was inherited)
  never prints its own Stack in the verbose form: the rendering is the same whatever
  that Stack is, it is the header line followed by what the wrapped error's branch
  writes, and Format itself writes at most one stack section into it (what an
  aggregate's own Format writes is left to its package). The section is exactly one,
  and is the wrapped error's stack, when the wrapped error is a foreign error that
  exposes a stack, and when it is an ErrMessage that wraps nothing.
\<close>

theorem Format_verbose_own_stack_never_printed:
  assumes "Err e = Some w"
  shows "Format X (ErrMessage (Header e) (ErrCode e) (Raw e) (Err e) s') True CHR ''v''
           = Format X e True CHR ''v''
    \<and> (\<forall>out. Format X e True CHR ''v'' = Inr out \<longrightarrow> stackSections out \<le> 1)
    \<and> (\<forall>msg st. w = Foreign msg (Some st) \<longrightarrow>
          Format X e True CHR ''v'' =
            Inr [Text (Code X e @ '': '' @ Raw e @ ''\<newline>''), Text (msg @ ''\<newline>''),
                 StackFormat st])
    \<and> (\<forall>em. w = EM (Some em) \<longrightarrow>
          Format X e True CHR ''v'' =
            (case Format X em True CHR ''v'' of
               Inl p \<Rightarrow> Inl p
             | Inr out \<Rightarrow> Inr (Text (Code X e @ '': '' @ Raw e @ ''\<newline>'') # out)))
    \<and> (\<forall>em. w = EM (Some em) \<and> Err em = None \<longrightarrow>
          Format X e True CHR ''v'' =
            Inr [Text (Code X e @ '': '' @ Raw e @ ''\<newline>''),
                 Text (Code X em @ '': '' @ Raw em @ ''\<newline>''), StackFormat (Stack em)])"
proof (intro conjI allI impI)
  show "Format X (ErrMessage (Header e) (ErrCode e) (Raw e) (Err e) s') True CHR ''v''
          = Format X e True CHR ''v''"
    by (rule Format_verbose_own_stack_unused [OF assms])
next
  fix out
  assume "Format X e True CHR ''v'' = Inr out"
  then show "stackSections out \<le> 1"
    by (rule Format_verbose_at_most_one_stack)
next
  fix msg st
  assume "w = Foreign msg (Some st)"
  then show "Format X e True CHR ''v'' =
      Inr [Text (Code X e @ '': '' @ Raw e @ ''\<newline>''), Text (msg @ ''\<newline>''), StackFormat st]"
    by (simp add: Format_verbose_wrapped [OF assms])
next
  fix em
  assume "w = EM (Some em)"
  then show "Format X e True CHR ''v'' =
      (case Format X em True CHR ''v'' of
         Inl p \<Rightarrow> Inl p
       | Inr out \<Rightarrow> Inr (Text (Code X e @ '': '' @ Raw e @ ''\<newline>'') # out))"
    by (simp add: Format_verbose_wrapped [OF assms])
next
  fix em
  assume "w = EM (Some em) \<and> Err em = None"
  then show "Format X e True CHR ''v'' =
      Inr [Text (Code X e @ '': '' @ Raw e @ ''\<newline>''),
           Text (Code X em @ '': '' @ Raw em @ ''\<newline>''), StackFormat (Stack em)]"
    by (simp add: Format_verbose_wrapped [OF assms] Format_verbose_leaf)
qed


theorem Format_verbose_own_stack_never_printed_witness:
  "Format sampleExt (ErrMessage ''OUT'' 1 ''outer failed'' (Some (Foreign ''boom'' (Some [1, 2]))) [1, 2])
      True CHR ''v''
     = Inr [Text ''OUT-1: outer failed\<newline>'', Text ''boom\<newline>'', StackFormat [1, 2]]
   \<and> Format sampleExt
        (ErrMessage ''OUT'' 1 ''outer failed''
           (Some (EM (Some (ErrMessage ''IN'' 2 ''inner failed'' None [5, 6])))) [5, 6])
        True CHR ''v''
     = Inr [Text ''OUT-1: outer failed\<newline>'', Text ''IN-2: inner failed\<newline>'',
            StackFormat [5, 6]]
   \<and> stackSections [Text ''OUT-1: outer failed\<newline>'', Text ''boom\<newline>'', StackFormat [1, 2]] \<le> 1"
  using Format_verbose_own_stack_never_printed
      [of "ErrMessage ''OUT'' 1 ''outer failed'' (Some (Foreign ''boom'' (Some [1, 2]))) [1, 2]"
          "Foreign ''boom'' (Some [1, 2])" sampleExt "[]"]
    Format_verbose_own_stack_never_printed
      [of "ErrMessage ''OUT'' 1 ''outer failed''
             (Some (EM (Some (ErrMessage ''IN'' 2 ''inner failed'' None [5, 6])))) [5, 6]"
          "EM (Some (ErrMessage ''IN'' 2 ''inner failed'' None [5, 6]))" sampleExt "[]"]
  by (simp add: Code_def Sprintf_code_format fmtInteger_def digits.simps digit_def)

end
